theory Spec2Isabelle
  imports Main
begin

section \<open>Pointed: owners, references and the observation chain\<close>

text \<open>
  The header \<^verbatim>\<open>include/Pointed.h\<close> declares two class templates. A \<^verbatim>\<open>Single<T>\<close> owns a
  heap value and holds \<^verbatim>\<open>top\<close>, a pointer to the first \<^verbatim>\<open>Ref\<close> observing it. A
  \<^verbatim>\<open>Ref<T>\<close> holds an observing \<^verbatim>\<open>pointer\<close> and the links \<^verbatim>\<open>last\<close> and \<^verbatim>\<open>next\<close> to its
  neighbours. All of these are raw pointers, so the objects are modelled in an explicit
  store: three partial maps from addresses to the owned values, the \<^verbatim>\<open>Single\<close> objects and
  the \<^verbatim>\<open>Ref\<close> objects that are alive. A pointer is an \<open>addr option\<close>, \<open>None\<close> being
  \<^verbatim>\<open>nullptr\<close>. Every member function takes the store and the address of \<^verbatim>\<open>this\<close> and
  returns the new store.
\<close>

subsection \<open>Data\<close>

type_synonym addr = nat

text \<open>A class of the user's hierarchy, as the run-time type information names it.\<close>

type_synonym cls = nat

text \<open>An owned value: its dynamic class and its contents.\<close>

record obj =
  dyn :: cls
  payload :: int

text \<open>\<^verbatim>\<open>class Single { T *pointer; mutable void *top = nullptr; }\<close>\<close>

record single =
  s_pointer :: "addr option"
  s_top :: "addr option"

text \<open>\<^verbatim>\<open>class Ref { T *pointer = nullptr; void *last = nullptr; void *next = nullptr; }\<close>\<close>

record ref =
  r_pointer :: "addr option"
  r_last :: "addr option"
  r_next :: "addr option"

record state =
  heap :: "addr \<rightharpoonup> obj"
  singles :: "addr \<rightharpoonup> single"
  refs :: "addr \<rightharpoonup> ref"

text \<open>
  The two exceptions of the library are \<^verbatim>\<open>InvalidRefException\<close> and \<^verbatim>\<open>std::bad_cast\<close>.
  An access through a pointer to an object that is no longer alive has no defined
  behaviour in C++; the model returns \<open>UndefinedBehaviour\<close> there instead of a value.
  A failing operation returns the error together with the store it leaves behind.
\<close>

datatype error = InvalidRefException | bad_cast | UndefinedBehaviour

type_synonym 'a result = "(error \<times> state) + 'a"

definition bind :: "'a result \<Rightarrow> ('a \<Rightarrow> 'b result) \<Rightarrow> 'b result" where
  "bind m f = (case m of Inl e \<Rightarrow> Inl e | Inr x \<Rightarrow> f x)"

definition empty_state :: state where
  "empty_state = \<lparr>heap = Map.empty, singles = Map.empty, refs = Map.empty\<rparr>"

subsection \<open>Reading and writing objects through pointers\<close>

definition get_ref :: "state \<Rightarrow> addr \<Rightarrow> ref result" where
  "get_ref s a = (case refs s a of None \<Rightarrow> Inl (UndefinedBehaviour, s) | Some r \<Rightarrow> Inr r)"

definition upd_ref :: "state \<Rightarrow> addr \<Rightarrow> (ref \<Rightarrow> ref) \<Rightarrow> state result" where
  "upd_ref s a f =
     (case refs s a of
        None \<Rightarrow> Inl (UndefinedBehaviour, s)
      | Some r \<Rightarrow> Inr (s\<lparr>refs := (refs s)(a \<mapsto> f r)\<rparr>))"

definition get_single :: "state \<Rightarrow> addr \<Rightarrow> single result" where
  "get_single s a = (case singles s a of None \<Rightarrow> Inl (UndefinedBehaviour, s) | Some x \<Rightarrow> Inr x)"

definition upd_single :: "state \<Rightarrow> addr \<Rightarrow> (single \<Rightarrow> single) \<Rightarrow> state result" where
  "upd_single s a f =
     (case singles s a of
        None \<Rightarrow> Inl (UndefinedBehaviour, s)
      | Some x \<Rightarrow> Inr (s\<lparr>singles := (singles s)(a \<mapsto> f x)\<rparr>))"

text \<open>
  \<^verbatim>\<open>dynamic_cast<To*>(p)\<close>: a null pointer stays null; otherwise the object's dynamic class
  decides. The class hierarchy of the user's program is the parameter \<open>sub\<close>:
  \<open>sub d t\<close> says that an object of dynamic class \<open>d\<close> converts to \<open>t\<close>.
\<close>

definition dynamic_cast :: "(cls \<Rightarrow> cls \<Rightarrow> bool) \<Rightarrow> cls \<Rightarrow> state \<Rightarrow> addr option \<Rightarrow> addr option result" where
  "dynamic_cast sub To s p =
     (case p of
        None \<Rightarrow> Inr None
      | Some a \<Rightarrow>
          (case heap s a of
             None \<Rightarrow> Inl (UndefinedBehaviour, s)
           | Some ob \<Rightarrow> Inr (if sub (dyn ob) To then Some a else None)))"

text \<open>\<^verbatim>\<open>delete pointer\<close>: nothing for a null pointer, otherwise the value is released.\<close>

definition delete :: "state \<Rightarrow> addr option \<Rightarrow> state result" where
  "delete s p =
     (case p of
        None \<Rightarrow> Inr s
      | Some a \<Rightarrow>
          (case heap s a of
             None \<Rightarrow> Inl (UndefinedBehaviour, s)
           | Some ob \<Rightarrow> Inr (s\<lparr>heap := (heap s)(a := None)\<rparr>)))"

subsection \<open>The private members of Ref\<close>

text \<open>\<^verbatim>\<open>void nullify() { pointer = nullptr; last = nullptr; next = nullptr; }\<close>\<close>

definition nullify :: "state \<Rightarrow> addr \<Rightarrow> state result" where
  "nullify s this = upd_ref s this (\<lambda>r. r\<lparr>r_pointer := None, r_last := None, r_next := None\<rparr>)"

text \<open>
  \<^verbatim>\<open>void invalidate() { nullify(); if (next) ((Ref<T>*)next)->invalidate(); }\<close>
  The member \<^verbatim>\<open>next\<close> is read after \<^verbatim>\<open>nullify()\<close> has run.
\<close>

function invalidate :: "state \<Rightarrow> addr \<Rightarrow> state result" where
  "invalidate s this =
     (case nullify s this of
        Inl e \<Rightarrow> Inl e
      | Inr s1 \<Rightarrow>
          (case get_ref s1 this of
             Inl e \<Rightarrow> Inl e
           | Inr r \<Rightarrow>
               (case r_next r of
                  None \<Rightarrow> Inr s1
                | Some n \<Rightarrow> invalidate s1 n)))"
  by pat_completeness auto
termination
proof (relation "{}")
  show "wf {}" by simp
next
  fix s this s1 r n
  assume "nullify s this = Inr s1" and "get_ref s1 this = Inr r" and "r_next r = Some n"
  then have False
    by (auto simp: nullify_def upd_ref_def get_ref_def split: option.splits)
  then show "((s1, n), (s, this)) \<in> {}" ..
qed

text \<open>
  \<^verbatim>\<open>void delink() { if (next) ((Ref<T>*)next)->last = last;
                     if (last) ((Ref<T>*)last)->next = next; }\<close>
\<close>

definition delink :: "state \<Rightarrow> addr \<Rightarrow> state result" where
  "delink s this =
     bind (get_ref s this) (\<lambda>r.
     bind (case r_next r of
             None \<Rightarrow> Inr s
           | Some n \<Rightarrow> upd_ref s n (\<lambda>x. x\<lparr>r_last := r_last r\<rparr>)) (\<lambda>s1.
     bind (get_ref s1 this) (\<lambda>r1.
       (case r_last r1 of
          None \<Rightarrow> Inr s1
        | Some l \<Rightarrow> upd_ref s1 l (\<lambda>x. x\<lparr>r_next := r_next r1\<rparr>)))))"

subsection \<open>The public members of Ref\<close>

text \<open>\<^verbatim>\<open>Ref() { }\<close>: an object at a new address, its three members null.\<close>

definition Ref_new :: "state \<Rightarrow> addr \<Rightarrow> state" where
  "Ref_new s this = s\<lparr>refs := (refs s)(this \<mapsto> \<lparr>r_pointer = None, r_last = None, r_next = None\<rparr>)\<rparr>"

text \<open>\<^verbatim>\<open>~Ref() { delink(); }\<close>, after which the object is gone.\<close>

definition Ref_destroy :: "state \<Rightarrow> addr \<Rightarrow> state result" where
  "Ref_destroy s this = bind (delink s this) (\<lambda>s1. Inr (s1\<lparr>refs := (refs s1)(this := None)\<rparr>))"

text \<open>
  \<^verbatim>\<open>Ref<T>& operator=(const Ref<T>& other)\<close>: every statement reads the store as the
  statements before it left it, so that \<open>this = other\<close> is covered.
\<close>

definition assign_Ref :: "state \<Rightarrow> addr \<Rightarrow> addr \<Rightarrow> state result" where
  "assign_Ref s this other =
     bind (delink s this) (\<lambda>s1.
     bind (nullify s1 this) (\<lambda>s2.
     bind (get_ref s2 other) (\<lambda>o2.
     bind (upd_ref s2 this (\<lambda>x. x\<lparr>r_pointer := r_pointer o2\<rparr>)) (\<lambda>s3.
     bind (upd_ref s3 this (\<lambda>x. x\<lparr>r_next := Some other\<rparr>)) (\<lambda>s4.
     bind (get_ref s4 other) (\<lambda>o4.
     bind (case r_last o4 of
             None \<Rightarrow> Inr s4
           | Some l \<Rightarrow>
               bind (upd_ref s4 this (\<lambda>x. x\<lparr>r_last := Some l\<rparr>)) (\<lambda>s5.
               upd_ref s5 l (\<lambda>x. x\<lparr>r_next := Some this\<rparr>))) (\<lambda>s6.
     upd_ref s6 other (\<lambda>x. x\<lparr>r_last := Some this\<rparr>))))))))"

text \<open>\<^verbatim>\<open>Ref<T>& operator=(const Single<T>& single)\<close>\<close>

definition assign_Single :: "state \<Rightarrow> addr \<Rightarrow> addr \<Rightarrow> state result" where
  "assign_Single s this sg =
     bind (delink s this) (\<lambda>s1.
     bind (nullify s1 this) (\<lambda>s2.
     bind (get_single s2 sg) (\<lambda>o2.
     bind (upd_ref s2 this (\<lambda>x. x\<lparr>r_pointer := s_pointer o2\<rparr>)) (\<lambda>s3.
     bind (case s_top o2 of
             None \<Rightarrow> Inr s3
           | Some t \<Rightarrow>
               bind (upd_ref s3 this (\<lambda>x. x\<lparr>r_next := Some t\<rparr>)) (\<lambda>s4.
               upd_ref s4 t (\<lambda>x. x\<lparr>r_last := Some this\<rparr>))) (\<lambda>s5.
     upd_single s5 sg (\<lambda>x. x\<lparr>s_top := Some this\<rparr>))))))"

text \<open>\<^verbatim>\<open>Ref(const Ref<T>& other) { operator=(other); }\<close> and \<^verbatim>\<open>Ref(const Single<T>& single)\<close>\<close>

definition Ref_copy :: "state \<Rightarrow> addr \<Rightarrow> addr \<Rightarrow> state result" where
  "Ref_copy s this other = assign_Ref (Ref_new s this) this other"

definition Ref_of_Single :: "state \<Rightarrow> addr \<Rightarrow> addr \<Rightarrow> state result" where
  "Ref_of_Single s this sg = assign_Single (Ref_new s this) this sg"

text \<open>
  \<^verbatim>\<open>T* operator->() { if (!pointer) throw InvalidRefException(); return (T*)pointer; }\<close>
  \<^verbatim>\<open>T& operator*()\<close> has the same test and returns the object \<^verbatim>\<open>pointer\<close> designates; a
  C++ reference is the address of its object.
\<close>

definition operator_arrow :: "state \<Rightarrow> addr \<Rightarrow> addr result" where
  "operator_arrow s this =
     bind (get_ref s this) (\<lambda>r.
       (case r_pointer r of
          None \<Rightarrow> Inl (InvalidRefException, s)
        | Some p \<Rightarrow> Inr p))"

definition operator_star :: "state \<Rightarrow> addr \<Rightarrow> addr result" where
  "operator_star s this =
     bind (get_ref s this) (\<lambda>r.
       (case r_pointer r of
          None \<Rightarrow> Inl (InvalidRefException, s)
        | Some p \<Rightarrow> Inr p))"

text \<open>\<^verbatim>\<open>operator bool() { return pointer != nullptr; }\<close>\<close>

definition operator_bool :: "state \<Rightarrow> addr \<Rightarrow> bool result" where
  "operator_bool s this = bind (get_ref s this) (\<lambda>r. Inr (r_pointer r \<noteq> None))"

subsection \<open>NullRef and RefCast\<close>

text \<open>\<^verbatim>\<open>Ref<T> NullRef() { return Ref<T>(); }\<close>: the returned object lives at \<open>result\<close>.\<close>

definition NullRef :: "state \<Rightarrow> addr \<Rightarrow> state" where
  "NullRef s result = Ref_new s result"

text \<open>
  \<^verbatim>\<open>Ref<To> RefCast(const Ref<From>& ref)\<close>. The local \<^verbatim>\<open>result\<close> is the object the caller
  receives, at the address \<open>result\<close>.
\<close>

definition RefCast :: "(cls \<Rightarrow> cls \<Rightarrow> bool) \<Rightarrow> cls \<Rightarrow> state \<Rightarrow> addr \<Rightarrow> addr \<Rightarrow> state result" where
  "RefCast sub To s rf result =
     bind (get_ref s rf) (\<lambda>r.
     bind (dynamic_cast sub To s (r_pointer r)) (\<lambda>pointerNew.
       (case pointerNew of
          Some p \<Rightarrow>
            bind (upd_ref (Ref_new s result) result (\<lambda>x. x\<lparr>r_pointer := Some p\<rparr>)) (\<lambda>s2.
            bind (upd_ref s2 result (\<lambda>x. x\<lparr>r_next := Some rf\<rparr>)) (\<lambda>s3.
            bind (get_ref s3 rf) (\<lambda>r3.
            bind (case r_last r3 of
                    None \<Rightarrow> Inr s3
                  | Some l \<Rightarrow>
                      bind (upd_ref s3 result (\<lambda>x. x\<lparr>r_last := Some l\<rparr>)) (\<lambda>s4.
                      upd_ref s4 l (\<lambda>x. x\<lparr>r_next := Some result\<rparr>))) (\<lambda>s5.
            upd_ref s5 rf (\<lambda>x. x\<lparr>r_last := Some result\<rparr>)))))
        | None \<Rightarrow> Inr (NullRef s result))))"

text \<open>
  A compiler that does not elide the copy of \<^verbatim>\<open>return result;\<close> builds the local at
  an address \<open>tmp\<close> of its own, copy-constructs the caller's object from it and
  destroys the local.
\<close>

definition RefCast_copied :: "(cls \<Rightarrow> cls \<Rightarrow> bool) \<Rightarrow> cls \<Rightarrow> state \<Rightarrow> addr \<Rightarrow> addr \<Rightarrow> addr \<Rightarrow> state result" where
  "RefCast_copied sub To s rf tmp result =
     bind (RefCast sub To s rf tmp) (\<lambda>s1.
     bind (Ref_copy s1 result tmp) (\<lambda>s2.
     Ref_destroy s2 tmp))"

subsection \<open>Single\<close>

text \<open>\<^verbatim>\<open>explicit Single(T *toTakeOwnershipOf) : pointer(toTakeOwnershipOf) { }\<close>\<close>

definition Single_new :: "state \<Rightarrow> addr \<Rightarrow> addr option \<Rightarrow> state" where
  "Single_new s this p = s\<lparr>singles := (singles s)(this \<mapsto> \<lparr>s_pointer = p, s_top = None\<rparr>)\<rparr>"

text \<open>\<^verbatim>\<open>my<T>(args)\<close>: \<^verbatim>\<open>new T(args)\<close> at the address \<open>a\<close>, owned by a Single at \<open>this\<close>.\<close>

definition my :: "state \<Rightarrow> addr \<Rightarrow> addr \<Rightarrow> obj \<Rightarrow> state" where
  "my s this a ob = Single_new (s\<lparr>heap := (heap s)(a \<mapsto> ob)\<rparr>) this (Some a)"

text \<open>
  \<^verbatim>\<open>Single(Single<T> &&other) noexcept : pointer(other.pointer), top(other.top)
     { other.pointer = nullptr; other.top = nullptr; }\<close>
\<close>

definition Single_move :: "state \<Rightarrow> addr \<Rightarrow> addr \<Rightarrow> state result" where
  "Single_move s this other =
     bind (get_single s other) (\<lambda>ot.
     bind (upd_single (s\<lparr>singles := (singles s)(this \<mapsto> \<lparr>s_pointer = s_pointer ot, s_top = s_top ot\<rparr>)\<rparr>)
             other (\<lambda>x. x\<lparr>s_pointer := None\<rparr>)) (\<lambda>s2.
     upd_single s2 other (\<lambda>x. x\<lparr>s_top := None\<rparr>)))"

text \<open>
  \<^verbatim>\<open>template<class O> Single(Single<O> &&other)\<close>. The object under construction has
  \<^verbatim>\<open>top = nullptr\<close> from its member initialiser; \<^verbatim>\<open>pointer\<close> receives the cast's result
  first. When the constructor throws, the object under construction ceases to exist.
\<close>

definition Single_move_cast :: "(cls \<Rightarrow> cls \<Rightarrow> bool) \<Rightarrow> cls \<Rightarrow> state \<Rightarrow> addr \<Rightarrow> addr \<Rightarrow> state result" where
  "Single_move_cast sub T s this other =
     bind (get_single s other) (\<lambda>ot.
     bind (dynamic_cast sub T s (s_pointer ot)) (\<lambda>p.
     bind (upd_single (Single_new s this None) this (\<lambda>x. x\<lparr>s_pointer := p\<rparr>)) (\<lambda>s1.
       (case p of
          None \<Rightarrow> Inl (bad_cast, s1\<lparr>singles := (singles s1)(this := None)\<rparr>)
        | Some a \<Rightarrow>
            bind (get_single s1 other) (\<lambda>o1.
            bind (upd_single s1 this (\<lambda>x. x\<lparr>s_top := s_top o1\<rparr>)) (\<lambda>s2.
            bind (upd_single s2 other (\<lambda>x. x\<lparr>s_pointer := None\<rparr>)) (\<lambda>s3.
            upd_single s3 other (\<lambda>x. x\<lparr>s_top := None\<rparr>))))))))"

text \<open>\<^verbatim>\<open>~Single() { delete pointer; if (top) ((Ref<T>*)top)->invalidate(); }\<close>\<close>

definition Single_destroy :: "state \<Rightarrow> addr \<Rightarrow> state result" where
  "Single_destroy s this =
     bind (get_single s this) (\<lambda>x.
     bind (delete s (s_pointer x)) (\<lambda>s1.
     bind (case s_top x of
             None \<Rightarrow> Inr s1
           | Some t \<Rightarrow> invalidate s1 t) (\<lambda>s2.
     Inr (s2\<lparr>singles := (singles s2)(this := None)\<rparr>))))"

subsection \<open>A small program to run\<close>

text \<open>
  A three-class hierarchy: \<open>3\<close> (Derived) derives from \<open>2\<close> (Base), and \<open>4\<close> (Unrelated)
  stands alone.
\<close>

definition demo_sub :: "cls \<Rightarrow> cls \<Rightarrow> bool" where
  "demo_sub d t = (d = t \<or> (d = 3 \<and> t = 2))"

definition demo_obj :: obj where
  "demo_obj = \<lparr>dyn = 3, payload = 20\<rparr>"

text \<open>
  The stores after \<^verbatim>\<open>auto o = my<T>(20); Ref<T> a = o;\<close>, then \<^verbatim>\<open>Ref<T> b = o;\<close>, then
  \<^verbatim>\<open>Ref<T> c = o;\<close>, with \<^verbatim>\<open>o\<close> at address 20, the value at 100 and the references at
  10, 11 and 12.
\<close>

definition one_ref :: state where
  "one_ref =
     \<lparr>heap = [100 \<mapsto> demo_obj],
      singles = [20 \<mapsto> \<lparr>s_pointer = Some 100, s_top = Some 10\<rparr>],
      refs = [10 \<mapsto> \<lparr>r_pointer = Some 100, r_last = None, r_next = None\<rparr>]\<rparr>"

definition two_refs :: state where
  "two_refs =
     \<lparr>heap = [100 \<mapsto> demo_obj],
      singles = [20 \<mapsto> \<lparr>s_pointer = Some 100, s_top = Some 11\<rparr>],
      refs = [10 \<mapsto> \<lparr>r_pointer = Some 100, r_last = Some 11, r_next = None\<rparr>,
              11 \<mapsto> \<lparr>r_pointer = Some 100, r_last = None, r_next = Some 10\<rparr>]\<rparr>"

definition three_refs :: state where
  "three_refs =
     \<lparr>heap = [100 \<mapsto> demo_obj],
      singles = [20 \<mapsto> \<lparr>s_pointer = Some 100, s_top = Some 12\<rparr>],
      refs = [10 \<mapsto> \<lparr>r_pointer = Some 100, r_last = Some 11, r_next = None\<rparr>,
              11 \<mapsto> \<lparr>r_pointer = Some 100, r_last = Some 12, r_next = Some 10\<rparr>,
              12 \<mapsto> \<lparr>r_pointer = Some 100, r_last = None, r_next = Some 11\<rparr>]\<rparr>"

section \<open>Properties\<close>

text \<open>
  The recursion in \<^verbatim>\<open>invalidate\<close> never runs: \<^verbatim>\<open>nullify()\<close> has set \<^verbatim>\<open>next\<close> to null
  before it is tested, so invalidating a node is nullifying that node alone.
\<close>

lemma invalidate_eq_nullify: "invalidate s this = nullify s this"
  by (subst invalidate.simps)
     (auto simp: nullify_def upd_ref_def get_ref_def split: option.splits sum.splits)

subsection \<open>Helper facts\<close>

lemmas prim_defs = bind_def get_ref_def upd_ref_def get_single_def upd_single_def
  dynamic_cast_def delete_def nullify_def delink_def Ref_new_def NullRef_def Single_new_def
  my_def empty_state_def

lemma single_all_updated [simp]:
  "x\<lparr>s_pointer := a, s_top := b\<rparr> = \<lparr>s_pointer = a, s_top = b\<rparr>"
  by (cases x) simp

lemma ref_all_updated [simp]:
  "y\<lparr>r_pointer := a, r_last := b, r_next := c\<rparr> = \<lparr>r_pointer = a, r_last = b, r_next = c\<rparr>"
  by (cases y) simp

text \<open>The three stores are what the constructors build, one after the other.\<close>

lemma one_ref_reached: "Ref_of_Single (my empty_state 20 100 demo_obj) 10 20 = Inr one_ref"
  by (simp add: one_ref_def Ref_of_Single_def assign_Single_def prim_defs)

lemma two_refs_reached: "Ref_of_Single one_ref 11 20 = Inr two_refs"
  by (simp add: one_ref_def two_refs_def Ref_of_Single_def assign_Single_def prim_defs fun_eq_iff)

lemma three_refs_reached: "Ref_of_Single two_refs 12 20 = Inr three_refs"
  by (simp add: two_refs_def three_refs_def Ref_of_Single_def assign_Single_def prim_defs fun_eq_iff)

subsection \<open>Dereference and validity\<close>

text \<open>
  C7. For a live Reference, \<^verbatim>\<open>operator*\<close> and \<^verbatim>\<open>operator->\<close> throw InvalidRefException
  exactly when \<^verbatim>\<open>pointer\<close> is null, and then leave the store as it was;
  \<^verbatim>\<open>operator bool\<close> returns whether \<^verbatim>\<open>pointer\<close> is non-null; with a non-null
  \<^verbatim>\<open>pointer\<close> both dereferences return the observed value and throw nothing.
\<close>

theorem deref_raises_iff_null:
  assumes "refs s this = Some r"
  shows "((\<exists>st. operator_star s this = Inl (InvalidRefException, st)) = (r_pointer r = None))
       \<and> ((\<exists>st. operator_arrow s this = Inl (InvalidRefException, st)) = (r_pointer r = None))
       \<and> operator_bool s this = Inr (r_pointer r \<noteq> None)
       \<and> (r_pointer r = None \<longrightarrow>
             operator_star s this = Inl (InvalidRefException, s)
           \<and> operator_arrow s this = Inl (InvalidRefException, s))
       \<and> (\<forall>p. r_pointer r = Some p \<longrightarrow>
             operator_star s this = Inr p \<and> operator_arrow s this = Inr p)"
  using assms
  by (auto simp: operator_star_def operator_arrow_def operator_bool_def bind_def get_ref_def
      split: option.splits)

theorem deref_raises_iff_null_witness:
  "refs one_ref 10 = Some \<lparr>r_pointer = Some 100, r_last = None, r_next = None\<rparr>
   \<and> operator_bool one_ref 10 = Inr True
   \<and> operator_star one_ref 10 = Inr 100
   \<and> operator_arrow one_ref 10 = Inr 100
   \<and> refs (Ref_new one_ref 12) 12 = Some \<lparr>r_pointer = None, r_last = None, r_next = None\<rparr>
   \<and> operator_bool (Ref_new one_ref 12) 12 = Inr False
   \<and> operator_star (Ref_new one_ref 12) 12 = Inl (InvalidRefException, Ref_new one_ref 12)
   \<and> operator_arrow (Ref_new one_ref 12) 12 = Inl (InvalidRefException, Ref_new one_ref 12)"
proof -
  have bound: "refs one_ref 10 = Some \<lparr>r_pointer = Some 100, r_last = None, r_next = None\<rparr>"
    by (simp add: one_ref_def)
  have empty: "refs (Ref_new one_ref 12) 12 = Some \<lparr>r_pointer = None, r_last = None, r_next = None\<rparr>"
    by (simp add: Ref_new_def)
  from deref_raises_iff_null [OF bound] deref_raises_iff_null [OF empty] bound empty
  show ?thesis by simp
qed

subsection \<open>Moving a Single\<close>

text \<open>
  C5. Move-constructing a Single at a new address from a live Single of the same type
  gives the new one the value pointer and the chain head, empties the source (both
  members null) and touches neither a Ref nor the owned value; destroying the
  moved-from Single afterwards again changes no Ref and releases no value.
\<close>

theorem Single_move_keeps_refs:
  assumes "singles s other = Some ot" and "singles s this = None"
  shows "\<exists>s1 s2. Single_move s this other = Inr s1
     \<and> singles s1 this = Some \<lparr>s_pointer = s_pointer ot, s_top = s_top ot\<rparr>
     \<and> singles s1 other = Some \<lparr>s_pointer = None, s_top = None\<rparr>
     \<and> refs s1 = refs s \<and> heap s1 = heap s
     \<and> Single_destroy s1 other = Inr s2
     \<and> refs s2 = refs s \<and> heap s2 = heap s \<and> singles s2 this = singles s1 this"
proof -
  from assms have ne: "this \<noteq> other" by auto
  show ?thesis
    using assms ne
    by (simp add: Single_move_def Single_destroy_def bind_def get_single_def upd_single_def
        delete_def)
qed

theorem Single_move_keeps_refs_witness:
  "singles two_refs 20 = Some \<lparr>s_pointer = Some 100, s_top = Some 11\<rparr>
   \<and> singles two_refs 21 = None
   \<and> (\<exists>s1 s2. Single_move two_refs 21 20 = Inr s1
         \<and> singles s1 21 = Some \<lparr>s_pointer = Some 100, s_top = Some 11\<rparr>
         \<and> singles s1 20 = Some \<lparr>s_pointer = None, s_top = None\<rparr>
         \<and> refs s1 = refs two_refs \<and> heap s1 = heap two_refs
         \<and> Single_destroy s1 20 = Inr s2
         \<and> refs s2 = refs two_refs \<and> heap s2 = heap two_refs)"
proof -
  have live: "singles two_refs 20 = Some \<lparr>s_pointer = Some 100, s_top = Some 11\<rparr>"
    and fresh: "singles two_refs 21 = None"
    by (simp_all add: two_refs_def)
  from Single_move_keeps_refs [OF live fresh] live fresh show ?thesis
    by auto
qed

text \<open>
  C3. Cross-type move construction at a new address from a live Single: when
  \<^verbatim>\<open>dynamic_cast\<close> yields null the constructor throws \<^verbatim>\<open>std::bad_cast\<close> and the whole
  store, the source included, is as before; when it yields a pointer, that pointer is the
  source's, the new Single holds it with the source's chain head, and the source holds
  two nulls.
\<close>

theorem Single_move_cast_all_or_nothing:
  assumes "singles s other = Some ot" and "singles s this = None"
  shows "(dynamic_cast sub T s (s_pointer ot) = Inr None \<longrightarrow>
            Single_move_cast sub T s this other = Inl (bad_cast, s))
       \<and> (\<forall>a. dynamic_cast sub T s (s_pointer ot) = Inr (Some a) \<longrightarrow>
            s_pointer ot = Some a \<and>
            Single_move_cast sub T s this other =
              Inr (s\<lparr>singles := (singles s)(this \<mapsto> \<lparr>s_pointer = Some a, s_top = s_top ot\<rparr>,
                                               other \<mapsto> \<lparr>s_pointer = None, s_top = None\<rparr>)\<rparr>))"
proof -
  from assms have ne: "this \<noteq> other" by auto
  have undo: "s\<lparr>singles := (singles s)(this := None)\<rparr> = s"
    using assms(2) by (simp add: fun_upd_idem)
  show ?thesis
    using assms ne undo
    by (auto simp: Single_move_cast_def Single_new_def bind_def get_single_def upd_single_def
          dynamic_cast_def
        split: option.splits if_splits)
qed

theorem Single_move_cast_all_or_nothing_witness:
  "singles one_ref 20 = Some \<lparr>s_pointer = Some 100, s_top = Some 10\<rparr>
   \<and> singles one_ref 21 = None
   \<and> dynamic_cast demo_sub 4 one_ref (Some 100) = Inr None
   \<and> Single_move_cast demo_sub 4 one_ref 21 20 = Inl (bad_cast, one_ref)
   \<and> dynamic_cast demo_sub 2 one_ref (Some 100) = Inr (Some 100)
   \<and> Single_move_cast demo_sub 2 one_ref 21 20 =
       Inr (one_ref\<lparr>singles := (singles one_ref)(21 \<mapsto> \<lparr>s_pointer = Some 100, s_top = Some 10\<rparr>,
                                                   20 \<mapsto> \<lparr>s_pointer = None, s_top = None\<rparr>)\<rparr>)"
proof -
  have live: "singles one_ref 20 = Some \<lparr>s_pointer = Some 100, s_top = Some 10\<rparr>"
    and fresh: "singles one_ref 21 = None"
    by (simp_all add: one_ref_def)
  have no: "dynamic_cast demo_sub 4 one_ref (Some 100) = Inr None"
    and yes: "dynamic_cast demo_sub 2 one_ref (Some 100) = Inr (Some 100)"
    by (simp_all add: one_ref_def demo_obj_def demo_sub_def dynamic_cast_def)
  show ?thesis
    using live fresh no yes
      Single_move_cast_all_or_nothing [OF live fresh, of demo_sub 4]
      Single_move_cast_all_or_nothing [OF live fresh, of demo_sub 2]
    by simp
qed

subsection \<open>Destroying a Ref\<close>

text \<open>
  What \<^verbatim>\<open>~Ref\<close> writes. Destroying a live Reference whose non-null links point to live
  References ends that Reference and writes two link fields at most, \<^verbatim>\<open>last\<close> of the
  node its \<^verbatim>\<open>next\<close> names and \<^verbatim>\<open>next\<close> of the node its \<^verbatim>\<open>last\<close> names, which now
  bypass it. The owned values are untouched, no other Reference appears or disappears
  and every other Reference keeps its \<^verbatim>\<open>pointer\<close>. No Single is written either, so
  the owner's \<^verbatim>\<open>top\<close> stays what it was, also when it names the destroyed Reference.
\<close>

lemma Ref_destroy_frame:
  assumes "refs s this = Some r"
    and "\<forall>n. r_next r = Some n \<longrightarrow> refs s n \<noteq> None"
    and "\<forall>l. r_last r = Some l \<longrightarrow> refs s l \<noteq> None"
  shows "\<exists>s'. Ref_destroy s this = Inr s'
       \<and> refs s' this = None \<and> heap s' = heap s \<and> singles s' = singles s
       \<and> (\<forall>q x. q \<noteq> this \<and> refs s q = Some x \<longrightarrow>
             (\<exists>x'. refs s' q = Some x' \<and> r_pointer x' = r_pointer x
                \<and> r_last x' = (if r_next r = Some q then r_last r else r_last x)
                \<and> r_next x' = (if r_last r = Some q then r_next r else r_next x)))
       \<and> (\<forall>q. refs s q = None \<longrightarrow> refs s' q = None)"
  using assms
  by (auto simp: Ref_destroy_def delink_def bind_def get_ref_def upd_ref_def
      split: option.splits)

lemma Ref_destroy_frame_middle_node:
  "refs three_refs 11 = Some \<lparr>r_pointer = Some 100, r_last = Some 12, r_next = Some 10\<rparr>
   \<and> refs three_refs 10 = Some \<lparr>r_pointer = Some 100, r_last = Some 11, r_next = None\<rparr>
   \<and> refs three_refs 12 = Some \<lparr>r_pointer = Some 100, r_last = None, r_next = Some 11\<rparr>
   \<and> (\<exists>s' x10 x12. Ref_destroy three_refs 11 = Inr s'
         \<and> refs s' 11 = None
         \<and> heap s' = heap three_refs \<and> singles s' = singles three_refs
         \<and> refs s' 10 = Some x10 \<and> r_pointer x10 = Some 100
         \<and> r_last x10 = Some 12 \<and> r_next x10 = None
         \<and> refs s' 12 = Some x12 \<and> r_pointer x12 = Some 100
         \<and> r_last x12 = None \<and> r_next x12 = Some 10)"
proof -
  let ?r = "\<lparr>r_pointer = Some 100, r_last = Some 12, r_next = Some 10\<rparr>"
  let ?a = "\<lparr>r_pointer = Some 100, r_last = Some 11, r_next = None\<rparr>"
  let ?c = "\<lparr>r_pointer = Some 100, r_last = None, r_next = Some 11\<rparr>"
  have live: "refs three_refs 11 = Some ?r"
    and n10: "refs three_refs 10 = Some ?a"
    and n12: "refs three_refs 12 = Some ?c"
    by (simp_all add: three_refs_def)
  have nx: "\<forall>n. r_next ?r = Some n \<longrightarrow> refs three_refs n \<noteq> None"
    and lt: "\<forall>l. r_last ?r = Some l \<longrightarrow> refs three_refs l \<noteq> None"
    using n10 n12 by simp_all
  from Ref_destroy_frame [OF live nx lt] obtain s' where
    d: "Ref_destroy three_refs 11 = Inr s'" "refs s' 11 = None"
       "heap s' = heap three_refs" "singles s' = singles three_refs"
    and others: "\<And>q x. q \<noteq> 11 \<and> refs three_refs q = Some x \<Longrightarrow>
             (\<exists>x'. refs s' q = Some x' \<and> r_pointer x' = r_pointer x
                \<and> r_last x' = (if r_next ?r = Some q then r_last ?r else r_last x)
                \<and> r_next x' = (if r_last ?r = Some q then r_next ?r else r_next x))"
    by blast
  from others [of 10 ?a] n10 obtain x10 where
    a: "refs s' 10 = Some x10" "r_pointer x10 = Some 100" "r_last x10 = Some 12" "r_next x10 = None"
    by auto
  from others [of 12 ?c] n12 obtain x12 where
    c: "refs s' 12 = Some x12" "r_pointer x12 = Some 100" "r_last x12 = None" "r_next x12 = Some 10"
    by auto
  from live n10 n12 d a c show ?thesis by auto
qed

text \<open>
  C6, evaluated on the code. After \<^verbatim>\<open>auto o = my<T>(20); Ref<T> a = o; Ref<T> b = o;\<close>
  the chain head is \<^verbatim>\<open>b\<close>. Destroying \<^verbatim>\<open>b\<close> leaves the value alive and \<^verbatim>\<open>a\<close> valid,
  observing it, with \<^verbatim>\<open>a.last\<close> null: only the neighbour's link field was written.
  But \<^verbatim>\<open>b\<close> has not left the chain: \<^verbatim>\<open>o.top\<close> still holds the address of the
  destroyed \<^verbatim>\<open>b\<close>, \<^verbatim>\<open>a\<close> is no longer reachable from the owner, and destroying \<^verbatim>\<open>o\<close>
  goes through the dangling head.
\<close>

theorem Ref_destroy_head_stays_chain_head:
  "Ref_of_Single one_ref 11 20 = Inr two_refs
   \<and> singles two_refs 20 = Some \<lparr>s_pointer = Some 100, s_top = Some 11\<rparr>
   \<and> (\<exists>s'. Ref_destroy two_refs 11 = Inr s'
         \<and> refs s' 11 = None
         \<and> singles s' 20 = Some \<lparr>s_pointer = Some 100, s_top = Some 11\<rparr>
         \<and> refs s' 10 = Some \<lparr>r_pointer = Some 100, r_last = None, r_next = None\<rparr>
         \<and> heap s' 100 = Some demo_obj
         \<and> operator_bool s' 10 = Inr True
         \<and> operator_star s' 10 = Inr 100
         \<and> (\<exists>st. Single_destroy s' 20 = Inl (UndefinedBehaviour, st)))"
proof -
  have "singles two_refs 20 = Some \<lparr>s_pointer = Some 100, s_top = Some 11\<rparr>"
    by (simp add: two_refs_def)
  moreover
  have "\<exists>s'. Ref_destroy two_refs 11 = Inr s'
         \<and> refs s' 11 = None
         \<and> singles s' 20 = Some \<lparr>s_pointer = Some 100, s_top = Some 11\<rparr>
         \<and> refs s' 10 = Some \<lparr>r_pointer = Some 100, r_last = None, r_next = None\<rparr>
         \<and> heap s' 100 = Some demo_obj
         \<and> operator_bool s' 10 = Inr True
         \<and> operator_star s' 10 = Inr 100
         \<and> (\<exists>st. Single_destroy s' 20 = Inl (UndefinedBehaviour, st))"
    by (simp add: two_refs_def Ref_destroy_def Single_destroy_def invalidate_eq_nullify prim_defs
        operator_bool_def operator_star_def)
  ultimately show ?thesis using two_refs_reached by blast
qed

subsection \<open>Assigning a Ref to itself\<close>



subsection \<open>Casting a Ref\<close>

text \<open>
  C8. When the source Reference is live and either empty or observing a live value whose
  dynamic class does not convert to \<open>To\<close>, \<^verbatim>\<open>RefCast\<close> returns normally and its result is
  a Reference with all three members null, the rest of the store unchanged. Whatever
  the input, \<^verbatim>\<open>RefCast\<close> throws neither of the library's exceptions.
\<close>

theorem RefCast_failure_is_empty:
  "(\<forall>r. refs s rf = Some r \<and>
        (r_pointer r = None \<or>
         (\<exists>a ob. r_pointer r = Some a \<and> heap s a = Some ob \<and> \<not> sub (dyn ob) To)) \<longrightarrow>
        RefCast sub To s rf result =
          Inr (s\<lparr>refs := (refs s)(result \<mapsto> \<lparr>r_pointer = None, r_last = None, r_next = None\<rparr>)\<rparr>))
   \<and> (\<forall>st. RefCast sub To s rf result \<noteq> Inl (InvalidRefException, st)
          \<and> RefCast sub To s rf result \<noteq> Inl (bad_cast, st))"
  by (auto simp: RefCast_def NullRef_def Ref_new_def bind_def get_ref_def upd_ref_def dynamic_cast_def
      split: option.splits if_splits)

theorem RefCast_failure_is_empty_witness:
  "refs one_ref 10 = Some \<lparr>r_pointer = Some 100, r_last = None, r_next = None\<rparr>
   \<and> heap one_ref 100 = Some demo_obj
   \<and> \<not> demo_sub (dyn demo_obj) 4
   \<and> RefCast demo_sub 4 one_ref 10 12 =
       Inr (one_ref\<lparr>refs := (refs one_ref)(12 \<mapsto> \<lparr>r_pointer = None, r_last = None, r_next = None\<rparr>)\<rparr>)
   \<and> refs (Ref_new one_ref 13) 13 = Some \<lparr>r_pointer = None, r_last = None, r_next = None\<rparr>
   \<and> RefCast demo_sub 2 (Ref_new one_ref 13) 13 12 =
       Inr ((Ref_new one_ref 13)\<lparr>refs := (refs (Ref_new one_ref 13))
              (12 \<mapsto> \<lparr>r_pointer = None, r_last = None, r_next = None\<rparr>)\<rparr>)"
proof -
  have live: "refs one_ref 10 = Some \<lparr>r_pointer = Some 100, r_last = None, r_next = None\<rparr>"
    and val: "heap one_ref 100 = Some demo_obj"
    and no: "\<not> demo_sub (dyn demo_obj) 4"
    by (simp_all add: one_ref_def demo_obj_def demo_sub_def)
  have empty: "refs (Ref_new one_ref 13) 13 = Some \<lparr>r_pointer = None, r_last = None, r_next = None\<rparr>"
    by (simp add: Ref_new_def)
  from RefCast_failure_is_empty [of one_ref 10 demo_sub 4 12]
    RefCast_failure_is_empty [of "Ref_new one_ref 13" 13 demo_sub 2 12]
    live val no empty
  show ?thesis by auto
qed

text \<open>
  Eliding the copy of the returned object or not makes no difference to the store the
  caller sees, so the claims on \<^verbatim>\<open>RefCast\<close> do not depend on the compiler's choice.
\<close>

lemma RefCast_copy_elision:
  assumes live: "refs s rf = Some r"
    and nb: "\<forall>l. r_last r = Some l \<longrightarrow> refs s l \<noteq> None"
    and fresh: "refs s tmp = None" "refs s result = None" "tmp \<noteq> result"
    and cast: "dynamic_cast sub To s (r_pointer r) = Inr p"
  shows "RefCast_copied sub To s rf tmp result = RefCast sub To s rf result"
proof -
  from live fresh have ne: "rf \<noteq> tmp" "rf \<noteq> result" by auto
  show ?thesis
  proof (cases p)
    case None
    from fresh have undo: "(refs s)(tmp := None) = refs s"
      by (simp add: fun_upd_idem)
    from None live fresh ne cast undo show ?thesis
      by (simp add: RefCast_copied_def RefCast_def Ref_copy_def Ref_destroy_def assign_Ref_def
          bind_def get_ref_def upd_ref_def nullify_def delink_def Ref_new_def NullRef_def
          fun_upd_twist)
  next
    case (Some a)
    show ?thesis
    proof (cases "r_last r")
      case None
      with Some live fresh ne cast show ?thesis
        by (simp add: RefCast_copied_def RefCast_def Ref_copy_def Ref_destroy_def assign_Ref_def
            bind_def get_ref_def upd_ref_def nullify_def delink_def Ref_new_def NullRef_def
            fun_eq_iff)
    next
      case (Some l)
      with nb obtain x where lx: "refs s l = Some x" by auto
      with fresh have nl: "l \<noteq> tmp" "l \<noteq> result" by auto
      from \<open>p = Some a\<close> Some lx nl live fresh ne cast show ?thesis
        by (cases "l = rf")
           (simp_all add: RefCast_copied_def RefCast_def Ref_copy_def Ref_destroy_def
            assign_Ref_def bind_def get_ref_def upd_ref_def nullify_def delink_def Ref_new_def
            NullRef_def fun_eq_iff)
    qed
  qed
qed

subsection \<open>What destroying an owner reaches\<close>

text \<open>
  C1, evaluated on the code. After \<^verbatim>\<open>auto o = my<T>(20); Ref<T> a = o; Ref<T> b = o;\<close>
  the chain head is \<^verbatim>\<open>b\<close> and \<^verbatim>\<open>b.next\<close> is \<^verbatim>\<open>a\<close>. Destroying \<^verbatim>\<open>o\<close> releases the value
  and nullifies \<^verbatim>\<open>b\<close>; \<^verbatim>\<open>a\<close> keeps its pointer to the released value, reports valid and
  dereferences without an exception.
\<close>

theorem Single_destroy_invalidates_head_only:
  "Ref_of_Single (my empty_state 20 100 demo_obj) 10 20 = Inr one_ref
   \<and> Ref_of_Single one_ref 11 20 = Inr two_refs
   \<and> (\<exists>s'. Single_destroy two_refs 20 = Inr s'
         \<and> heap s' 100 = None
         \<and> refs s' 11 = Some \<lparr>r_pointer = None, r_last = None, r_next = None\<rparr>
         \<and> refs s' 10 = Some \<lparr>r_pointer = Some 100, r_last = Some 11, r_next = None\<rparr>
         \<and> operator_bool s' 10 = Inr True
         \<and> operator_star s' 10 = Inr 100)"
proof -
  have "\<exists>s'. Single_destroy two_refs 20 = Inr s'
         \<and> heap s' 100 = None
         \<and> refs s' 11 = Some \<lparr>r_pointer = None, r_last = None, r_next = None\<rparr>
         \<and> refs s' 10 = Some \<lparr>r_pointer = Some 100, r_last = Some 11, r_next = None\<rparr>
         \<and> operator_bool s' 10 = Inr True
         \<and> operator_star s' 10 = Inr 100"
    by (simp add: two_refs_def Single_destroy_def invalidate_eq_nullify prim_defs
        operator_bool_def operator_star_def)
  with one_ref_reached two_refs_reached show ?thesis by blast
qed

text \<open>
  C2, evaluated on the code. After \<^verbatim>\<open>auto o = my<Derived>(20); Ref<Derived> a = o;\<close>
  the cast \<^verbatim>\<open>RefCast<Derived>(a)\<close> succeeds; its result \<^verbatim>\<open>c\<close> observes the same value and
  is linked before \<^verbatim>\<open>a\<close> (\<^verbatim>\<open>c.next\<close> is \<^verbatim>\<open>a\<close>, \<^verbatim>\<open>a.last\<close> is \<^verbatim>\<open>c\<close>) while the owner's
  \<^verbatim>\<open>top\<close> is still \<^verbatim>\<open>a\<close>. Destroying \<^verbatim>\<open>o\<close> releases the value and nullifies \<^verbatim>\<open>a\<close>;
  \<^verbatim>\<open>c\<close> keeps its pointer and reports valid.
\<close>

theorem RefCast_result_survives_owner:
  "Ref_of_Single (my empty_state 20 100 demo_obj) 10 20 = Inr one_ref
   \<and> (\<exists>s1 s2. RefCast demo_sub 3 one_ref 10 12 = Inr s1
         \<and> refs s1 12 = Some \<lparr>r_pointer = Some 100, r_last = None, r_next = Some 10\<rparr>
         \<and> refs s1 10 = Some \<lparr>r_pointer = Some 100, r_last = Some 12, r_next = None\<rparr>
         \<and> singles s1 20 = Some \<lparr>s_pointer = Some 100, s_top = Some 10\<rparr>
         \<and> Single_destroy s1 20 = Inr s2
         \<and> heap s2 100 = None
         \<and> refs s2 10 = Some \<lparr>r_pointer = None, r_last = None, r_next = None\<rparr>
         \<and> refs s2 12 = Some \<lparr>r_pointer = Some 100, r_last = None, r_next = Some 10\<rparr>
         \<and> operator_bool s2 12 = Inr True
         \<and> operator_star s2 12 = Inr 100)"
proof -
  have "\<exists>s1 s2. RefCast demo_sub 3 one_ref 10 12 = Inr s1
         \<and> refs s1 12 = Some \<lparr>r_pointer = Some 100, r_last = None, r_next = Some 10\<rparr>
         \<and> refs s1 10 = Some \<lparr>r_pointer = Some 100, r_last = Some 12, r_next = None\<rparr>
         \<and> singles s1 20 = Some \<lparr>s_pointer = Some 100, s_top = Some 10\<rparr>
         \<and> Single_destroy s1 20 = Inr s2
         \<and> heap s2 100 = None
         \<and> refs s2 10 = Some \<lparr>r_pointer = None, r_last = None, r_next = None\<rparr>
         \<and> refs s2 12 = Some \<lparr>r_pointer = Some 100, r_last = None, r_next = Some 10\<rparr>
         \<and> operator_bool s2 12 = Inr True
         \<and> operator_star s2 12 = Inr 100"
    by (simp add: one_ref_def demo_obj_def demo_sub_def RefCast_def Single_destroy_def
        invalidate_eq_nullify prim_defs operator_bool_def operator_star_def)
  with one_ref_reached show ?thesis by blast
qed

text \<open>
  The same with a source that is not the chain head: in the two-reference store the cast
  of \<^verbatim>\<open>a\<close> is linked between \<^verbatim>\<open>b\<close> and \<^verbatim>\<open>a\<close>, and destroying the owner nullifies \<^verbatim>\<open>b\<close>
  alone.
\<close>

lemma RefCast_inner_survives_owner:
  "\<exists>s1 s2. RefCast demo_sub 3 two_refs 10 12 = Inr s1
      \<and> refs s1 11 = Some \<lparr>r_pointer = Some 100, r_last = None, r_next = Some 12\<rparr>
      \<and> refs s1 12 = Some \<lparr>r_pointer = Some 100, r_last = Some 11, r_next = Some 10\<rparr>
      \<and> refs s1 10 = Some \<lparr>r_pointer = Some 100, r_last = Some 12, r_next = None\<rparr>
      \<and> Single_destroy s1 20 = Inr s2
      \<and> refs s2 11 = Some \<lparr>r_pointer = None, r_last = None, r_next = None\<rparr>
      \<and> refs s2 12 = Some \<lparr>r_pointer = Some 100, r_last = Some 11, r_next = Some 10\<rparr>
      \<and> refs s2 10 = Some \<lparr>r_pointer = Some 100, r_last = Some 12, r_next = None\<rparr>"
  by (simp add: two_refs_def demo_obj_def demo_sub_def RefCast_def Single_destroy_def
      invalidate_eq_nullify prim_defs)

subsection \<open>Copying an empty Ref\<close>

text \<open>
  C4, evaluated on the code. After \<^verbatim>\<open>Ref<T> a; Ref<T> b(a);\<close> the copy \<^verbatim>\<open>b\<close> has a null
  \<^verbatim>\<open>pointer\<close> and is linked all the same: \<^verbatim>\<open>b.next\<close> is \<^verbatim>\<open>a\<close> and \<^verbatim>\<open>a.last\<close> is \<^verbatim>\<open>b\<close>.
  Copy assignment between two empty References does the same.
\<close>

theorem copy_of_empty_is_linked:
  "(\<exists>s'. Ref_copy (Ref_new empty_state 10) 11 10 = Inr s'
      \<and> refs s' 11 = Some \<lparr>r_pointer = None, r_last = None, r_next = Some 10\<rparr>
      \<and> refs s' 10 = Some \<lparr>r_pointer = None, r_last = Some 11, r_next = None\<rparr>
      \<and> operator_bool s' 11 = Inr False)
   \<and> (\<exists>s'. assign_Ref (Ref_new (Ref_new empty_state 10) 11) 11 10 = Inr s'
      \<and> refs s' 11 = Some \<lparr>r_pointer = None, r_last = None, r_next = Some 10\<rparr>
      \<and> refs s' 10 = Some \<lparr>r_pointer = None, r_last = Some 11, r_next = None\<rparr>)"
  by (simp add: Ref_copy_def assign_Ref_def prim_defs operator_bool_def)

subsection \<open>The chain head after its Ref is destroyed\<close>

text \<open>
  C9, evaluated on the code. After \<^verbatim>\<open>auto o = my<T>(20); { Ref<T> a = o; }\<close> the
  Reference \<^verbatim>\<open>a\<close> is gone and \<^verbatim>\<open>o.top\<close> still holds its address; destroying \<^verbatim>\<open>o\<close> then
  calls \<^verbatim>\<open>invalidate\<close> through that pointer.
\<close>

theorem Ref_destroy_leaves_top_dangling:
  "Ref_of_Single (my empty_state 20 100 demo_obj) 10 20 = Inr one_ref
   \<and> (\<exists>s'. Ref_destroy one_ref 10 = Inr s'
         \<and> refs s' 10 = None
         \<and> singles s' 20 = Some \<lparr>s_pointer = Some 100, s_top = Some 10\<rparr>
         \<and> (\<exists>st. Single_destroy s' 20 = Inl (UndefinedBehaviour, st)))"
proof -
  have "\<exists>s'. Ref_destroy one_ref 10 = Inr s'
         \<and> refs s' 10 = None
         \<and> singles s' 20 = Some \<lparr>s_pointer = Some 100, s_top = Some 10\<rparr>
         \<and> (\<exists>st. Single_destroy s' 20 = Inl (UndefinedBehaviour, st))"
    by (simp add: one_ref_def Ref_destroy_def Single_destroy_def invalidate_eq_nullify prim_defs)
  with one_ref_reached show ?thesis by blast
qed

end
